theory Spec2Isabelle
  imports Main "HOL-Library.AList"
begin

section \<open>Tables, cells and errors\<close>

text \<open>
  The program (\<^verbatim>\<open>osm_fieldwork/update_xlsform.py\<close>) works on pandas data frames. A
  data frame is modelled as the ordered list of its column labels and the ordered list of
  its rows; a row maps a column label to its cell, and \<open>None\<close> stands for the missing
  value (NaN / None) that pandas stores where a cell is empty. A cell holds a string or a
  number (numbers are integers here; no operation of the program computes with them).

  Strings are \<open>char list\<close>; every \<open>char\<close> is read as one code point below 256, so a column
  label with a code point above 255 is outside the model.
\<close>

datatype cell = Str string | Num int

type_synonym row = "string \<Rightarrow> cell option"

record table =
  columns :: "string list"
  rows :: "row list"

text \<open>
  The exceptions the program raises itself (\<^verbatim>\<open>ValueError\<close>) or through a missing column
  label (\<^verbatim>\<open>KeyError\<close>). In Python's exception hierarchy \<^verbatim>\<open>KeyError\<close> derives from
  \<^verbatim>\<open>LookupError\<close>; \<^verbatim>\<open>ValueError\<close> does not.
\<close>

datatype error = ValueError string | KeyError string

definition is_lookup_error :: "error \<Rightarrow> bool" where
  "is_lookup_error e = (case e of KeyError _ \<Rightarrow> True | ValueError _ \<Rightarrow> False)"

subsection \<open>The pandas operations the program calls\<close>

text \<open>\<^verbatim>\<open>df.empty\<close>: an axis of the frame has length 0.\<close>

definition df_empty :: "table \<Rightarrow> bool" where
  "df_empty df = (columns df = [] \<or> rows df = [])"

text \<open>\<^verbatim>\<open>Series.notna()\<close>, cell by cell: the empty string is a value, not a missing one.\<close>

definition notna :: "cell option \<Rightarrow> bool" where
  "notna v = (v \<noteq> None)"

text \<open>\<^verbatim>\<open>Series.isin(values)\<close>, cell by cell; a missing cell matches a missing value.\<close>

definition isin :: "cell option \<Rightarrow> cell option list \<Rightarrow> bool" where
  "isin v vs = (v \<in> set vs)"

text \<open>\<^verbatim>\<open>series == "text"\<close>, cell by cell: a missing cell equals nothing.\<close>

definition eq_str :: "cell option \<Rightarrow> string \<Rightarrow> bool" where
  "eq_str v s = (v = Some (Str s))"

text \<open>
  Relabelling the columns in place (\<^verbatim>\<open>df.columns = ...\<close>, \<^verbatim>\<open>df.rename(columns=...)\<close>):
  the data stay where they are and every column gets the label \<open>f\<close> gives it. A row of
  the relabelled frame reads, under a new label, the cell of the first column that got
  this label.
\<close>

definition relabel :: "(string \<Rightarrow> string) \<Rightarrow> table \<Rightarrow> table" where
  "relabel f df =
     \<lparr>columns = map f (columns df),
      rows = map (\<lambda>r c. case find (\<lambda>c'. f c' = c) (columns df) of
                            None \<Rightarrow> None
                          | Some c' \<Rightarrow> r c') (rows df)\<rparr>"

text \<open>\<^verbatim>\<open>df.rename(columns={col: new}, inplace=True)\<close>.\<close>

definition rename :: "string \<Rightarrow> string \<Rightarrow> table \<Rightarrow> table" where
  "rename col new df = relabel (\<lambda>c. if c = col then new else c) df"

text \<open>\<^verbatim>\<open>df[mask]\<close> with a row mask: the rows the mask selects, in order.\<close>

definition select_rows :: "(row \<Rightarrow> bool) \<Rightarrow> table \<Rightarrow> table" where
  "select_rows keep df = df\<lparr>rows := filter keep (rows df)\<rparr>"

subsection \<open>Python strings\<close>

text \<open>
  \<^verbatim>\<open>str.lower()\<close> on code points below 256: the ASCII capitals and the Latin-1 capitals
  (192 to 222 but 215) move up by 32, which sets bit 5.
\<close>

definition py_lower_char :: "char \<Rightarrow> char" where
  "py_lower_char c =
     (let n = (of_char c :: nat)
      in if (65 \<le> n \<and> n \<le> 90) \<or> (192 \<le> n \<and> n \<le> 214) \<or> (216 \<le> n \<and> n \<le> 222)
         then (case c of Char b0 b1 b2 b3 b4 b5 b6 b7 \<Rightarrow> Char b0 b1 b2 b3 b4 True b6 b7)
         else c)"

definition lower :: "string \<Rightarrow> string" where
  "lower s = map py_lower_char s"

text \<open>The characters the regular expression class \<^verbatim>\<open>\w\<close> matches, below 256.\<close>

definition is_word_char :: "char \<Rightarrow> bool" where
  "is_word_char c =
     (let n = (of_char c :: nat)
      in (48 \<le> n \<and> n \<le> 57) \<or> (65 \<le> n \<and> n \<le> 90) \<or> n = 95 \<or> (97 \<le> n \<and> n \<le> 122)
         \<or> n = 170 \<or> (178 \<le> n \<and> n \<le> 179) \<or> n = 181 \<or> (185 \<le> n \<and> n \<le> 186)
         \<or> (188 \<le> n \<and> n \<le> 190) \<or> (192 \<le> n \<and> n \<le> 214) \<or> (216 \<le> n \<and> n \<le> 246)
         \<or> (248 \<le> n \<and> n \<le> 255))"

definition startswith :: "string \<Rightarrow> string \<Rightarrow> bool" where
  "startswith s p = (take (length p) s = p)"

definition endswith :: "string \<Rightarrow> string \<Rightarrow> bool" where
  "endswith s p = (length p \<le> length s \<and> drop (length s - length p) s = p)"

section \<open>Constants of the module\<close>

definition FEATURE_COLUMN :: string where "FEATURE_COLUMN = ''feature''"
definition NAME_COLUMN :: string where "NAME_COLUMN = ''name''"
definition TYPE_COLUMN :: string where "TYPE_COLUMN = ''type''"
definition SURVEY_GROUP_NAME :: string where "SURVEY_GROUP_NAME = ''survey_questions''"

definition DEFAULT_LANGUAGES :: "(string \<times> string) list" where
  "DEFAULT_LANGUAGES =
     [(''english'', ''en''), (''french'', ''fr''), (''spanish'', ''es''),
      (''swahili'', ''sw''), (''nepali'', ''ne'')]"

section \<open>standardize_xlsform_sheets\<close>

definition base_columns :: "string list" where
  "base_columns = [''label'', ''hint'', ''required_message'']"

text \<open>
  \<^verbatim>\<open>re.match(rf"{base_col}::(\w+)", col)\<close>: the pattern is anchored at the start of
  \<open>col\<close>, the group is the longest run of word characters after the two colons, and there
  is no match when that run is empty. The result is the group.
\<close>

definition re_match_lang :: "string \<Rightarrow> string \<Rightarrow> string option" where
  "re_match_lang base_col col =
     (if startswith col (base_col @ ''::'')
      then (let g = takeWhile is_word_char (drop (length base_col + 2) col)
            in if g = [] then None else Some g)
      else None)"

text \<open>
  The body of the inner loop over \<open>base_columns\<close>, for the column \<open>col\<close> of the outer
  loop: the state is the variable \<open>standardized_col\<close>.
\<close>

definition next_standardized_col :: "string \<Rightarrow> string \<Rightarrow> string \<Rightarrow> string" where
  "next_standardized_col col standardized_col base_col =
     (if startswith col (base_col @ ''::'') then
        (case re_match_lang base_col col of
           Some lang_name \<Rightarrow>
             (case map_of DEFAULT_LANGUAGES lang_name of
                Some code \<Rightarrow> base_col @ ''::'' @ lang_name @ ''('' @ code @ '')''
              | None \<Rightarrow> standardized_col)
         | None \<Rightarrow> standardized_col)
      else if col = base_col then base_col @ ''::english(en)''
      else standardized_col)"

text \<open>The same body with the frame it renames in place.\<close>

definition rename_step :: "string \<Rightarrow> string \<times> table \<Rightarrow> string \<Rightarrow> string \<times> table" where
  "rename_step col st base_col =
     (let standardized_col = next_standardized_col col (fst st) base_col
      in (standardized_col,
          if col \<noteq> standardized_col then rename col standardized_col (snd st) else snd st))"

definition standardize_language_columns :: "table \<Rightarrow> table" where
  "standardize_language_columns df =
     (let df1 = relabel lower df;
          existing_columns = columns df1
      in fold (\<lambda>col d. snd (fold (\<lambda>base_col st. rename_step col st base_col)
                                  base_columns (col, d)))
              existing_columns df1)"

definition group_types :: "cell option list" where
  "group_types =
     [Some (Str ''begin group''), Some (Str ''end group''),
      Some (Str ''begin_group''), Some (Str ''end_group'')]"

definition filter_df_empty_rows :: "table \<Rightarrow> string \<Rightarrow> table" where
  "filter_df_empty_rows df column =
     (if column \<in> set (columns df) then
        (if ''type'' \<in> set (columns df)
         then select_rows (\<lambda>r. notna (r column) \<or> isin (r ''type'') group_types) df
         else select_rows (\<lambda>r. notna (r column)) df)
      else df)"

text \<open>
  A form is the dictionary \<^verbatim>\<open>read_excel(..., sheet_name=None)\<close> returns: the sheets by
  name, in the order of the workbook. The loop replaces the value of every key whose frame
  is not empty.
\<close>

type_synonym form = "(string \<times> table) list"

definition standardize_sheet :: "table \<Rightarrow> table" where
  "standardize_sheet sheet_df =
     (if df_empty sheet_df then sheet_df
      else filter_df_empty_rows (standardize_language_columns sheet_df) NAME_COLUMN)"

definition standardize_xlsform_sheets :: "form \<Rightarrow> form" where
  "standardize_xlsform_sheets xlsform =
     map (\<lambda>(sheet_name, sheet_df). (sheet_name, standardize_sheet sheet_df)) xlsform"

section \<open>More pandas operations\<close>

text \<open>
  \<^verbatim>\<open>pd.concat(frames, ignore_index=True)\<close>: the rows of the frames one after the other,
  under the union of their column labels in the order of first appearance. A row has no
  value under a label its own frame does not have.
\<close>

definition first_occurrences :: "'a list \<Rightarrow> 'a list" where
  "first_occurrences xs = rev (remdups (rev xs))"

definition reindexed :: "table \<Rightarrow> row list" where
  "reindexed df = map (\<lambda>r c. if c \<in> set (columns df) then r c else None) (rows df)"

definition concat_frames :: "table list \<Rightarrow> table" where
  "concat_frames dfs =
     \<lparr>columns = first_occurrences (concat (map columns dfs)),
      rows = concat (map reindexed dfs)\<rparr>"

text \<open>\<^verbatim>\<open>df[col]\<close>: the cells of a column, or \<^verbatim>\<open>KeyError\<close> when no column has the label.\<close>

definition get_column :: "table \<Rightarrow> string \<Rightarrow> error + cell option list" where
  "get_column df col =
     (if col \<in> set (columns df) then Inr (map (\<lambda>r. r col) (rows df)) else Inl (KeyError col))"

text \<open>
  \<^verbatim>\<open>df.drop_duplicates(subset=..., ignore_index=True)\<close>: of the rows that agree on the
  subset's columns only the first is kept (missing values count as equal to each other);
  a label of the subset that is no column raises \<^verbatim>\<open>KeyError\<close>.
\<close>

fun keep_first :: "('a \<Rightarrow> 'k) \<Rightarrow> 'k list \<Rightarrow> 'a list \<Rightarrow> 'a list" where
  "keep_first key seen [] = []"
| "keep_first key seen (r # rs) =
     (if key r \<in> set seen then keep_first key seen rs
      else r # keep_first key (key r # seen) rs)"

definition subset_key :: "string list \<Rightarrow> row \<Rightarrow> cell option list" where
  "subset_key labels r = map r labels"

definition drop_duplicates :: "string list \<Rightarrow> table \<Rightarrow> error + table" where
  "drop_duplicates labels df =
     (case filter (\<lambda>c. c \<notin> set (columns df)) labels of
        [] \<Rightarrow> Inr (df\<lparr>rows := keep_first (subset_key labels) [] (rows df)\<rparr>)
      | c # _ \<Rightarrow> Inl (KeyError c))"

text \<open>
  \<^verbatim>\<open>pd.DataFrame({label: [value], ...})\<close>: a frame of one row, from its cells in the
  order they are written.
\<close>

definition frame1 :: "(string \<times> cell) list \<Rightarrow> table" where
  "frame1 cells = \<lparr>columns = map fst cells, rows = [map_of cells]\<rparr>"

text \<open>\<^verbatim>\<open>df[col] = value\<close>: every row gets the value, in a new last column if need be.\<close>

definition set_column :: "string \<Rightarrow> cell \<Rightarrow> table \<Rightarrow> table" where
  "set_column col v df =
     \<lparr>columns = (if col \<in> set (columns df) then columns df else columns df @ [col]),
      rows = map (\<lambda>r. r(col \<mapsto> v)) (rows df)\<rparr>"

text \<open>\<^verbatim>\<open>df.loc[mask, col] = value\<close>: the rows the mask \<open>sel\<close> selects get the value.\<close>

definition set_where :: "(row \<Rightarrow> bool) \<Rightarrow> string \<Rightarrow> cell \<Rightarrow> table \<Rightarrow> table" where
  "set_where sel col v df =
     \<lparr>columns = (if col \<in> set (columns df) then columns df else columns df @ [col]),
      rows = map (\<lambda>r. if sel r then r(col \<mapsto> v) else r) (rows df)\<rparr>"

section \<open>create_survey_group\<close>

text \<open>The dictionary with the keys \<^verbatim>\<open>begin\<close> and \<^verbatim>\<open>end\<close> is the pair (begin, end).\<close>

definition create_survey_group :: "string \<Rightarrow> table \<times> table" where
  "create_survey_group name =
     (let begin_group = frame1
            [(''type'', Str ''begin group''),
             (''name'', Str name),
             (''label::english(en)'', Str name),
             (''label::swahili(sw)'', Str name),
             (''label::french(fr)'', Str name),
             (''label::spanish(es)'', Str name),
             (''relevant'',
                Str (''(${new_feature} != '' @ [CHR 0x27, CHR 0x27] @ '') or (${building_exists} = ''
                     @ [CHR 0x27] @ ''yes'' @ [CHR 0x27] @ '')''))];
          end_group = frame1 [(''type'', Str ''end group'')]
      in (begin_group, end_group))"

section \<open>normalize_with_meta\<close>

text \<open>
  The function is applied to every row of the user's frame (\<^verbatim>\<open>apply(..., axis=1)\<close>);
  \<open>index\<close> is the list of labels of the row, the columns of its frame. Reading the
  column \<^verbatim>\<open>type\<close> of the meta frame or of the row raises \<^verbatim>\<open>KeyError\<close> when it is not
  there. The comparison \<^verbatim>\<open>==\<close> is false on a missing value.
\<close>

definition normalize_with_meta :: "table \<Rightarrow> string list \<Rightarrow> row \<Rightarrow> error + row" where
  "normalize_with_meta meta_df index row =
     (if ''type'' \<notin> set (columns meta_df) \<or> TYPE_COLUMN \<notin> set index then Inl (KeyError ''type'')
      else
        (let matching_meta =
               select_rows (\<lambda>m. m ''type'' \<noteq> None \<and> m ''type'' = row TYPE_COLUMN) meta_df
         in if \<not> df_empty matching_meta
            then Inr (\<lambda>col. if col \<in> set (columns matching_meta)
                             then hd (rows matching_meta) col else row col)
            else Inr row))"

fun traverse :: "('a \<Rightarrow> error + 'b) \<Rightarrow> 'a list \<Rightarrow> error + 'b list" where
  "traverse f [] = Inr []"
| "traverse f (x # xs) =
     (case f x of
        Inl e \<Rightarrow> Inl e
      | Inr y \<Rightarrow> (case traverse f xs of Inl e \<Rightarrow> Inl e | Inr ys \<Rightarrow> Inr (y # ys)))"

text \<open>
  \<^verbatim>\<open>user_question_df.apply(normalize_with_meta, axis=1, meta_df=meta_df)\<close>. The frame
  of the results has the labels of all the rows returned: the user's columns, and the meta
  frame's when a row took its cells from it (the order of the new labels is pandas' and
  no operation of the program depends on it).
\<close>

definition apply_normalize_with_meta :: "table \<Rightarrow> table \<Rightarrow> error + table" where
  "apply_normalize_with_meta meta_df user_question_df =
     (case traverse (normalize_with_meta meta_df (columns user_question_df))
             (rows user_question_df) of
        Inl e \<Rightarrow> Inl e
      | Inr rs \<Rightarrow>
          Inr \<lparr>columns =
                 (if list_ex (\<lambda>r. list_ex (\<lambda>m. m ''type'' \<noteq> None \<and> m ''type'' = r TYPE_COLUMN)
                                       (rows meta_df)) (rows user_question_df)
                  then first_occurrences (columns user_question_df @ columns meta_df)
                  else columns user_question_df),
               rows = rs\<rparr>)"

section \<open>merge_dataframes\<close>

text \<open>
  \<open>meta_df\<close> is the module's global of that name, which \<^verbatim>\<open>merge_dataframes\<close> reads; it
  is a parameter here. The set \<^verbatim>\<open>duplicate_fields\<close> is the list of the user's names that
  are a name of the mandatory or of the digitisation frame.
\<close>

definition merge_dataframes :: "table \<Rightarrow> table \<Rightarrow> table \<Rightarrow> table \<Rightarrow> error + table" where
  "merge_dataframes meta_df mandatory_df user_question_df0 digitisation_df =
     (if ''list_name'' \<in> set (columns user_question_df0) then
        (let merged_df = concat_frames [mandatory_df, user_question_df0, digitisation_df]
         in drop_duplicates [''list_name'', NAME_COLUMN] merged_df)
      else
        (case apply_normalize_with_meta meta_df user_question_df0 of
           Inl e \<Rightarrow> Inl e
         | Inr user_question_df \<Rightarrow>
        (case get_column user_question_df NAME_COLUMN of
           Inl e \<Rightarrow> Inl e
         | Inr user_names \<Rightarrow>
        (case get_column mandatory_df NAME_COLUMN of
           Inl e \<Rightarrow> Inl e
         | Inr mandatory_names \<Rightarrow>
        (case get_column digitisation_df NAME_COLUMN of
           Inl e \<Rightarrow> Inl e
         | Inr digitisation_names \<Rightarrow>
        (case get_column user_question_df ''type'' of
           Inl e \<Rightarrow> Inl e
         | Inr _ \<Rightarrow>
            (let duplicate_fields =
                   filter (\<lambda>n. n \<in> set mandatory_names \<union> set digitisation_names) user_names;
                 end_group = [Some (Str ''end group''), Some (Str ''end_group'')];
                 user_question_df_filtered =
                   select_rows (\<lambda>r. \<not> isin (r NAME_COLUMN) duplicate_fields
                                     \<or> isin (r ''type'') end_group) user_question_df;
                 survey_group = create_survey_group SURVEY_GROUP_NAME
             in Inr (concat_frames
                       [mandatory_df,
                        fst survey_group,
                        user_question_df_filtered,
                        snd survey_group,
                        digitisation_df]))))))))"

section \<open>append_select_one_from_file_row\<close>

text \<open>
  The frame has the default index (0, 1, ...), as every frame \<^verbatim>\<open>append_mandatory_fields\<close>
  passes has, so the index labels of the rows named \<^verbatim>\<open>feature\<close> are their positions.
\<close>

definition anchor_not_found :: string where
  "anchor_not_found =
     ''Row with '' @ [CHR 0x27] @ ''name'' @ [CHR 0x27] @ '' == '' @ [CHR 0x27] @ ''feature''
     @ [CHR 0x27] @ '' not found in survey sheet.''"

text \<open>The two frames of one row the function builds, by the names of its variables.\<close>

definition additional_row :: "string \<Rightarrow> table" where
  "additional_row entity_name = frame1
     [(''type'', Str (''select_one_from_file '' @ entity_name @ ''.csv'')),
      (''name'', Str entity_name),
      (''label::english(en)'', Str entity_name),
      (''appearance'', Str ''map''),
      (''label::swahili(sw)'', Str entity_name),
      (''label::french(fr)'', Str entity_name),
      (''label::spanish(es)'', Str entity_name)]"

definition coordinates_row :: "string \<Rightarrow> table" where
  "coordinates_row entity_name = frame1
     [(''type'', Str ''calculate''),
      (''name'', Str ''additional_geometry''),
      (''calculation'',
         Str (''instance('' @ [CHR 0x27] @ entity_name @ [CHR 0x27]
              @ '')/root/item[name=${'' @ entity_name @ ''}]/geometry'')),
      (''label::english(en)'', Str ''additional_geometry''),
      (''label::swahili(sw)'', Str ''additional_geometry''),
      (''label::french(fr)'', Str ''additional_geometry''),
      (''label::spanish(es)'', Str ''additional_geometry'')]"

definition append_select_one_from_file_row :: "table \<Rightarrow> string \<Rightarrow> error + table" where
  "append_select_one_from_file_row df entity_name =
     (if NAME_COLUMN \<notin> set (columns df) then Inl (KeyError NAME_COLUMN)
      else
        (let select_one_from_file_index =
               filter (\<lambda>i. eq_str ((rows df ! i) NAME_COLUMN) FEATURE_COLUMN)
                      [0..<length (rows df)]
         in if select_one_from_file_index = [] then Inl (ValueError anchor_not_found)
            else
              (let row_index_to_split_on = hd select_one_from_file_index + 1;
                   top_df = df\<lparr>rows := take row_index_to_split_on (rows df)\<rparr>;
                   bottom_df = df\<lparr>rows := drop row_index_to_split_on (rows df)\<rparr>
               in Inr (concat_frames
                         [top_df, additional_row entity_name, coordinates_row entity_name,
                          bottom_df]))))"

section \<open>append_mandatory_fields\<close>

text \<open>
  The module imports seven frames from \<^verbatim>\<open>osm_fieldwork.form_components\<close>, which are not
  part of the sources at hand: their contents are a parameter, the store \<open>globals\<close>. They
  are objects of the module, shared by all calls of the function.

  A value of the dictionary \<^verbatim>\<open>custom_sheets\<close> is a reference to a frame: a frame created
  during the call, which nothing but the dictionary refers to (\<open>Local\<close>, with the frame), or
  one of the module's frames (\<open>Global\<close>). Writing through a \<open>Global\<close> reference changes
  the store.
\<close>

datatype template =
  survey_df | choices_df | digitisation_df | digitisation_choices_df
  | entities_df | meta_df | settings_df

type_synonym globals = "template \<Rightarrow> table"

datatype ref = Local table | Global template

definition deref :: "globals \<Rightarrow> ref \<Rightarrow> table" where
  "deref g r = (case r of Local t \<Rightarrow> t | Global n \<Rightarrow> g n)"

text \<open>
  \<^verbatim>\<open>custom_sheets[sheet][col] = value\<close>: the frame the key refers to is changed in
  place. (The program does this for a key it has just stored.)
\<close>

definition setitem ::
  "string \<Rightarrow> string \<Rightarrow> cell \<Rightarrow> (string \<times> ref) list \<times> globals \<Rightarrow> (string \<times> ref) list \<times> globals"
where
  "setitem sheet col v st =
     (case map_of (fst st) sheet of
        Some (Global n) \<Rightarrow> (fst st, (snd st)(n := set_column col v (snd st n)))
      | Some (Local t) \<Rightarrow> (AList.update sheet (Local (set_column col v t)) (fst st), snd st)
      | None \<Rightarrow> st)"

text \<open>The loop over \<^verbatim>\<open>additional_entities\<close>, on the survey frame.\<close>

fun append_entities :: "table \<Rightarrow> string list \<Rightarrow> error + table" where
  "append_entities df [] = Inr df"
| "append_entities df (entity_name # rest) =
     (case append_select_one_from_file_row df entity_name of
        Inl e \<Rightarrow> Inl e
      | Inr df' \<Rightarrow> append_entities df' rest)"

text \<open>
  The parameters: the store \<open>g\<close> of the module's frames; the clock's text
  \<open>current_datetime\<close> and the identifier \<open>uuid4\<close> that \<^verbatim>\<open>uuid4()\<close> would return; the
  sheets \<open>parsed\<close> that \<^verbatim>\<open>read_excel\<close> returns for \<^verbatim>\<open>custom_form\<close>; the arguments
  \<^verbatim>\<open>form_category\<close>, \<^verbatim>\<open>additional_entities\<close> (the empty list for \<^verbatim>\<open>None\<close>) and
  \<^verbatim>\<open>existing_id\<close>. The result is what the call raises or returns (the identifier and
  the sheets as the writer reads them, in the dictionary's order) and the store after the
  call.
\<close>

definition append_mandatory_fields ::
  "globals \<Rightarrow> string \<Rightarrow> string \<Rightarrow> form \<Rightarrow> string \<Rightarrow> string list \<Rightarrow> string option
     \<Rightarrow> (error + string \<times> form) \<times> globals"
where
  "append_mandatory_fields g current_datetime uuid4 parsed form_category0 additional_entities
       existing_id =
     (if ''survey'' \<notin> set (map fst parsed)
      then (Inl (ValueError ''Survey sheet is required in XLSForm!''), g)
      else
        (let custom_sheets0 = standardize_xlsform_sheets parsed in
         case merge_dataframes (g meta_df) (g survey_df)
                (the (map_of custom_sheets0 ''survey'')) (g digitisation_df) of
           Inl e \<Rightarrow> (Inl e, g)
         | Inr merged_survey \<Rightarrow>
        (let form_category =
               (if endswith form_category0 ''s'' then butlast form_category0
                else form_category0)
         in
         case get_column merged_survey ''name'' of
           Inl e \<Rightarrow> (Inl e, g)
         | Inr _ \<Rightarrow>
        (let is_form_category = (\<lambda>r. eq_str (r ''name'') ''form_category'');
             form_category_row = select_rows is_form_category merged_survey;
             survey1 =
               (if \<not> df_empty form_category_row
                then set_where is_form_category ''calculation''
                       (Str (''once('' @ [CHR 0x27] @ form_category @ [CHR 0x27] @ '')''))
                       merged_survey
                else merged_survey);
             user_choices =
               (case map_of custom_sheets0 ''choices'' of
                  None \<Rightarrow> \<lparr>columns = [''list_name'', ''name'', ''label::english(en)''], rows = []\<rparr>
                | Some t \<Rightarrow> t)
         in
         case merge_dataframes (g meta_df) (g choices_df) user_choices
                (g digitisation_choices_df) of
           Inl e \<Rightarrow> (Inl e, g)
         | Inr merged_choices \<Rightarrow>
        (let custom_sheets1 =
               AList.update ''settings'' (Global settings_df)
                 (AList.update ''entities'' (Global entities_df)
                   (AList.update ''choices'' (Local merged_choices)
                     (AList.update ''survey'' (Local survey1)
                       (map (\<lambda>(sheet_name, t). (sheet_name, Local t)) custom_sheets0))));
             xform_id =
               (case existing_id of
                  Some i \<Rightarrow> if i \<noteq> [] then i else uuid4
                | None \<Rightarrow> uuid4);
             st = setitem ''settings'' ''form_title'' (Str form_category)
                    (setitem ''settings'' ''form_id'' (Str xform_id)
                      (setitem ''settings'' ''version'' (Str current_datetime)
                        (custom_sheets1, g)))
         in
         case (if additional_entities \<noteq> [] then append_entities survey1 additional_entities
               else Inr survey1) of
           Inl e \<Rightarrow> (Inl e, snd st)
         | Inr survey2 \<Rightarrow>
             (Inr (xform_id,
                   map (\<lambda>(sheet_name, r). (sheet_name, deref (snd st) r))
                       (AList.update ''survey'' (Local survey2) (fst st))),
              snd st))))))"

section \<open>Rows and frames the statements below refer to\<close>

text \<open>The two rows one call of \<^verbatim>\<open>append_select_one_from_file_row\<close> inserts.\<close>

definition entity_rows :: "string \<Rightarrow> row list" where
  "entity_rows e = rows (additional_row e) @ rows (coordinates_row e)"

text \<open>The cells of a frame's \<^verbatim>\<open>name\<close> column.\<close>

definition names_of :: "table \<Rightarrow> cell option list" where
  "names_of df = map (\<lambda>r. r ''name'') (rows df)"

text \<open>Two small survey frames: with a row named \<^verbatim>\<open>feature\<close>, and without one.\<close>

definition example_anchor :: table where
  "example_anchor =
     \<lparr>columns = [''type'', ''name''],
      rows = [map_of [(''type'', Str ''start''), (''name'', Str ''start'')],
              map_of [(''type'', Str ''select_one_from_file features.csv''),
                      (''name'', Str ''feature'')],
              map_of [(''type'', Str ''text''), (''name'', Str ''comment'')]]\<rparr>"

definition example_no_anchor :: table where
  "example_no_anchor =
     \<lparr>columns = [''type'', ''name''],
      rows = [map_of [(''type'', Str ''text''), (''name'', Str ''comment'')]]\<rparr>"

text \<open>
  The label cells of a row under the five default languages, in the order of
  \<open>DEFAULT_LANGUAGES\<close>.
\<close>

definition label_cells :: "row \<Rightarrow> cell option list" where
  "label_cells r =
     map (\<lambda>(lang_name, code). r (''label::'' @ lang_name @ ''('' @ code @ '')''))
         DEFAULT_LANGUAGES"

text \<open>
  Contents for the module's frames: a mandatory survey with the rows \<^verbatim>\<open>feature\<close> and
  \<^verbatim>\<open>form_category\<close>, and small frames for the rest.
\<close>

definition example_globals :: globals where
  "example_globals n =
     (case n of
        survey_df \<Rightarrow>
          \<lparr>columns = [''type'', ''name'', ''calculation''],
           rows = [map_of [(''type'', Str ''start''), (''name'', Str ''start'')],
                   map_of [(''type'', Str ''select_one_from_file features.csv''),
                           (''name'', Str ''feature'')],
                   map_of [(''type'', Str ''calculate''), (''name'', Str ''form_category''),
                           (''calculation'', Str ''once(category)'')]]\<rparr>
      | choices_df \<Rightarrow>
          \<lparr>columns = [''list_name'', ''name'', ''label::english(en)''],
           rows = [map_of [(''list_name'', Str ''yes_no''), (''name'', Str ''yes''),
                           (''label::english(en)'', Str ''Yes'')]]\<rparr>
      | digitisation_df \<Rightarrow>
          \<lparr>columns = [''type'', ''name''],
           rows = [map_of [(''type'', Str ''text''), (''name'', Str ''comment'')]]\<rparr>
      | digitisation_choices_df \<Rightarrow>
          \<lparr>columns = [''list_name'', ''name'', ''label::english(en)''],
           rows = [map_of [(''list_name'', Str ''yes_no''), (''name'', Str ''yes''),
                           (''label::english(en)'', Str ''Correct'')],
                   map_of [(''list_name'', Str ''problem''), (''name'', Str ''bad''),
                           (''label::english(en)'', Str ''Bad'')]]\<rparr>
      | entities_df \<Rightarrow>
          \<lparr>columns = [''list_name'', ''entity_id''],
           rows = [map_of [(''list_name'', Str ''features''),
                           (''entity_id'', Str ''coalesce(${feature}, uuid())'')]]\<rparr>
      | meta_df \<Rightarrow>
          \<lparr>columns = [''type'', ''name''],
           rows = [map_of [(''type'', Str ''start''), (''name'', Str ''start'')]]\<rparr>
      | settings_df \<Rightarrow>
          \<lparr>columns = [''form_id'', ''version'', ''form_title''],
           rows = [map_of [(''form_id'', Str ''template'')]]\<rparr>)"

text \<open>A form as parsed from a workbook with a survey and a choices sheet.\<close>

definition example_form :: form where
  "example_form =
     [(''survey'',
       \<lparr>columns = [''Type'', ''Name'', ''Label'', ''Label::French'', ''Hint::German''],
        rows = [map_of [(''Type'', Str ''text''), (''Name'', Str ''q1''),
                        (''Label'', Str ''Question 1''), (''Label::French'', Str ''Question un'')],
                map_of [(''Type'', Str ''note''), (''Label'', Str ''A note without a name'')]]\<rparr>),
      (''choices'',
       \<lparr>columns = [''list_name'', ''name'', ''label''],
        rows = [map_of [(''list_name'', Str ''yes_no''), (''name'', Str ''yes''),
                        (''label'', Str ''Oui'')],
                map_of [(''list_name'', Str ''colour''), (''name'', Str ''yes''),
                        (''label'', Str ''Red'')]]\<rparr>)]"

text \<open>The \<^verbatim>\<open>name\<close> column of the survey sheet a call returns.\<close>

definition survey_names :: "(error + string \<times> form) \<Rightarrow> cell option list" where
  "survey_names res =
     (case res of
        Inl e \<Rightarrow> []
      | Inr (xform_id, sheets) \<Rightarrow>
          (case map_of sheets ''survey'' of None \<Rightarrow> [] | Some t \<Rightarrow> names_of t))"

section \<open>Lemmas on lists and frames\<close>


lemma filter_upt_first:
  assumes "i < n" and "P i" and "\<forall>j<i. \<not> P j"
  shows "filter P [0..<n] = i # filter P [Suc i..<n]"
proof -
  have "[0..<n] = [0..<i] @ i # [Suc i..<n]"
    using assms(1) by (metis less_imp_le_nat upt_add_eq_append upt_conv_Cons zero_le le_add_diff_inverse)
  moreover have "filter P [0..<i] = []"
    using assms(3) by (simp add: filter_empty_conv)
  ultimately show ?thesis using assms(2) by simp
qed

lemma filter_upt_empty_iff:
  "filter (\<lambda>i. P (xs ! i)) [0..<length xs] = [] \<longleftrightarrow> \<not> (\<exists>r \<in> set xs. P r)"
proof
  assume "filter (\<lambda>i. P (xs ! i)) [0..<length xs] = []"
  then have "\<forall>i<length xs. \<not> P (xs ! i)" by (simp add: filter_empty_conv)
  then show "\<not> (\<exists>r \<in> set xs. P r)" by (metis in_set_conv_nth)
next
  assume "\<not> (\<exists>r \<in> set xs. P r)"
  then show "filter (\<lambda>i. P (xs ! i)) [0..<length xs] = []"
    by (simp add: filter_empty_conv)
qed

lemma reindexed_frame1: "reindexed (frame1 cells) = [map_of cells]"
proof -
  have "(\<lambda>c. if c \<in> fst ` set cells then map_of cells c else None) = map_of cells"
  proof (rule ext)
    fix c show "(if c \<in> fst ` set cells then map_of cells c else None) = map_of cells c"
    proof (cases "c \<in> fst ` set cells")
      case True then show ?thesis by simp
    next
      case False
      then have "map_of cells c = None" by (simp add: map_of_eq_None_iff)
      with False show ?thesis by simp
    qed
  qed
  then show ?thesis by (simp add: reindexed_def frame1_def)
qed

lemma reindexed_take: "reindexed (df\<lparr>rows := take k (rows df)\<rparr>) = take k (reindexed df)"
  by (simp add: reindexed_def take_map)

lemma reindexed_drop: "reindexed (df\<lparr>rows := drop k (rows df)\<rparr>) = drop k (reindexed df)"
  by (simp add: reindexed_def drop_map)

lemma reindexed_entity:
  "reindexed (additional_row e) @ reindexed (coordinates_row e) = entity_rows e"
  by (simp add: entity_rows_def additional_row_def coordinates_row_def reindexed_frame1)
    (simp add: frame1_def)


lemma append_select_one_Inr:
  assumes "NAME_COLUMN \<in> set (columns df)"
    and "i < length (rows df)"
    and "eq_str ((rows df ! i) NAME_COLUMN) FEATURE_COLUMN"
    and "\<forall>j<i. \<not> eq_str ((rows df ! j) NAME_COLUMN) FEATURE_COLUMN"
  shows "append_select_one_from_file_row df e =
           Inr \<lparr>columns = first_occurrences
                    (columns df @ columns (additional_row e) @ columns (coordinates_row e)
                     @ columns df),
                rows = take (Suc i) (reindexed df) @ entity_rows e @ drop (Suc i) (reindexed df)\<rparr>"
proof -
  let ?P = "\<lambda>i. eq_str ((rows df ! i) NAME_COLUMN) FEATURE_COLUMN"
  have f: "filter ?P [0..<length (rows df)] = i # filter ?P [Suc i..<length (rows df)]"
    using filter_upt_first [of i "length (rows df)" ?P] assms by blast
  show ?thesis
    using assms(1)
    by (simp add: append_select_one_from_file_row_def f concat_frames_def reindexed_take
        reindexed_drop reindexed_entity [symmetric])
qed


lemmas eval_defs =
  append_select_one_from_file_row_def concat_frames_def reindexed_def frame1_def
  first_occurrences_def additional_row_def coordinates_row_def NAME_COLUMN_def
  FEATURE_COLUMN_def eq_str_def example_anchor_def example_no_anchor_def names_of_def
  anchor_not_found_def is_lookup_error_def


lemma filter_upt_nonempty_first:
  assumes "filter P [0..<n] \<noteq> []"
  shows "\<exists>i<n. P i \<and> (\<forall>j<i. \<not> P j)"
proof -
  from assms obtain k where k: "k < n" "P k"
    by (auto simp: filter_empty_conv)
  let ?i = "LEAST i. P i"
  have "P ?i" using k(2) by (rule LeastI)
  moreover have "?i \<le> k" using k(2) by (rule Least_le)
  moreover have "\<forall>j<?i. \<not> P j" using not_less_Least by blast
  ultimately show ?thesis using k(1) by (meson le_less_trans)
qed

lemma append_select_one_InrD:
  assumes "append_select_one_from_file_row df e = Inr out"
  shows "NAME_COLUMN \<in> set (columns df) \<and>
         (\<exists>i<length (rows df). eq_str ((rows df ! i) NAME_COLUMN) FEATURE_COLUMN
            \<and> (\<forall>j<i. \<not> eq_str ((rows df ! j) NAME_COLUMN) FEATURE_COLUMN)
            \<and> out = \<lparr>columns = first_occurrences
                          (columns df @ columns (additional_row e) @ columns (coordinates_row e)
                           @ columns df),
                      rows = take (Suc i) (reindexed df) @ entity_rows e
                             @ drop (Suc i) (reindexed df)\<rparr>)"
proof -
  let ?P = "\<lambda>i. eq_str ((rows df ! i) NAME_COLUMN) FEATURE_COLUMN"
  have n: "NAME_COLUMN \<in> set (columns df)"
    using assms by (auto simp: append_select_one_from_file_row_def split: if_splits)
  have "filter ?P [0..<length (rows df)] \<noteq> []"
    using assms n by (auto simp: append_select_one_from_file_row_def Let_def split: if_splits)
  then obtain i where i: "i < length (rows df)" "?P i" "\<forall>j<i. \<not> ?P j"
    using filter_upt_nonempty_first [of ?P "length (rows df)"] by blast
  from append_select_one_Inr [OF n i, of e] assms i n show ?thesis by auto
qed

text \<open>
  C5 (as amended). A survey frame with a \<^verbatim>\<open>name\<close> column and no row named
  \<^verbatim>\<open>feature\<close> makes the insertion raise \<^verbatim>\<open>ValueError\<close>, with the message
  \<open>anchor_not_found\<close>, and \<^verbatim>\<open>ValueError\<close> is not a \<^verbatim>\<open>LookupError\<close>; a frame without a
  \<^verbatim>\<open>name\<close> column raises \<^verbatim>\<open>KeyError\<close>; a frame with a row named \<^verbatim>\<open>feature\<close>
  returns a frame.
\<close>

theorem anchor_lookup:
  "(NAME_COLUMN \<notin> set (columns df) \<longrightarrow>
      append_select_one_from_file_row df e = Inl (KeyError ''name''))
   \<and> (NAME_COLUMN \<in> set (columns df) \<and> \<not> (\<exists>r \<in> set (rows df). r ''name'' = Some (Str ''feature'')) \<longrightarrow>
        append_select_one_from_file_row df e = Inl (ValueError anchor_not_found)
        \<and> \<not> is_lookup_error (ValueError anchor_not_found))
   \<and> (NAME_COLUMN \<in> set (columns df) \<and> (\<exists>r \<in> set (rows df). r ''name'' = Some (Str ''feature'')) \<longrightarrow>
        (\<exists>out. append_select_one_from_file_row df e = Inr out))"
proof -
  let ?P = "\<lambda>r::row. eq_str (r NAME_COLUMN) FEATURE_COLUMN"
  have iff: "(filter (\<lambda>i. ?P (rows df ! i)) [0..<length (rows df)] = [])
             = (\<not> (\<exists>r \<in> set (rows df). r ''name'' = Some (Str ''feature'')))"
    using filter_upt_empty_iff [of ?P "rows df"]
    by (simp add: eq_str_def NAME_COLUMN_def FEATURE_COLUMN_def)
  show ?thesis
    using iff
    by (auto simp: append_select_one_from_file_row_def Let_def is_lookup_error_def
        NAME_COLUMN_def)
qed

theorem anchor_lookup_witness:
  "append_select_one_from_file_row \<lparr>columns = [''type''], rows = []\<rparr> ''road''
     = Inl (KeyError ''name'')
   \<and> append_select_one_from_file_row example_no_anchor ''road''
       = Inl (ValueError anchor_not_found)
   \<and> (\<exists>out. append_select_one_from_file_row example_anchor ''road'' = Inr out)"
proof -
  have a: "NAME_COLUMN \<notin> set (columns \<lparr>columns = [''type''], rows = []\<rparr>)"
    by (simp add: NAME_COLUMN_def)
  have b: "NAME_COLUMN \<in> set (columns example_no_anchor)
           \<and> \<not> (\<exists>r \<in> set (rows example_no_anchor). r ''name'' = Some (Str ''feature''))"
    by (simp add: NAME_COLUMN_def example_no_anchor_def)
  have c: "NAME_COLUMN \<in> set (columns example_anchor)
           \<and> (\<exists>r \<in> set (rows example_anchor). r ''name'' = Some (Str ''feature''))"
    by (simp add: NAME_COLUMN_def example_anchor_def)
  show ?thesis
    using a b c
      anchor_lookup [of "\<lparr>columns = [''type''], rows = []\<rparr>" "''road''"]
      anchor_lookup [of example_no_anchor "''road''"]
      anchor_lookup [of example_anchor "''road''"]
    by blast
qed

text \<open>
  C5 as stated fails: on a frame without anchor the error raised is a \<^verbatim>\<open>ValueError\<close>,
  which is not of the \<^verbatim>\<open>LookupError\<close> class.
\<close>

theorem anchor_error_counterexample:
  "append_select_one_from_file_row example_no_anchor ''road''
     = Inl (ValueError anchor_not_found)
   \<and> is_lookup_error (ValueError anchor_not_found) = False"
  by (simp add: eval_defs)


lemma set_first_occurrences [simp]: "set (first_occurrences xs) = set xs"
  by (simp add: first_occurrences_def)

lemma reindexed_idem:
  assumes "\<forall>r \<in> set rs. \<forall>c. c \<notin> set cs \<longrightarrow> r c = None"
  shows "reindexed \<lparr>columns = cs, rows = rs\<rparr> = rs"
proof -
  have "\<forall>r \<in> set rs. (\<lambda>c. if c \<in> set cs then r c else None) = r"
    using assms by (auto intro!: ext)
  then show ?thesis by (simp add: reindexed_def map_idI)
qed

lemma reindexed_outside:
  "r \<in> set (reindexed df) \<Longrightarrow> c \<notin> set (columns df) \<Longrightarrow> r c = None"
  by (auto simp: reindexed_def)

lemma reindexed_inside:
  "i < length (rows df) \<Longrightarrow> c \<in> set (columns df) \<Longrightarrow> (reindexed df ! i) c = (rows df ! i) c"
  by (simp add: reindexed_def)

lemma length_reindexed [simp]: "length (reindexed df) = length (rows df)"
  by (simp add: reindexed_def)

lemma entity_rows_outside:
  assumes "r \<in> set (entity_rows e)"
    and "c \<notin> set (columns (additional_row e)) \<union> set (columns (coordinates_row e))"
  shows "r c = None"
  using assms
  by (auto simp: entity_rows_def additional_row_def coordinates_row_def frame1_def)

lemma inserted_reindexed:
  "reindexed \<lparr>columns = first_occurrences
                  (columns df @ columns (additional_row e) @ columns (coordinates_row e)
                   @ columns df),
              rows = take k (reindexed df) @ entity_rows e @ drop k (reindexed df)\<rparr>
   = take k (reindexed df) @ entity_rows e @ drop k (reindexed df)"
proof (rule reindexed_idem, intro ballI allI impI)
  fix r c
  assume r: "r \<in> set (take k (reindexed df) @ entity_rows e @ drop k (reindexed df))"
    and c: "c \<notin> set (first_occurrences
                  (columns df @ columns (additional_row e) @ columns (coordinates_row e)
                   @ columns df))"
  from r consider "r \<in> set (reindexed df)" | "r \<in> set (entity_rows e)"
    by (auto dest: in_set_takeD in_set_dropD)
  then show "r c = None"
  proof cases
    case 1 then show ?thesis using c by (auto intro: reindexed_outside)
  next
    case 2 then show ?thesis using c by (auto intro: entity_rows_outside)
  qed
qed

lemma append_entities_rows:
  assumes "NAME_COLUMN \<in> set (columns df)"
    and "i < length (rows df)"
    and "eq_str ((rows df ! i) NAME_COLUMN) FEATURE_COLUMN"
    and "\<forall>j<i. \<not> eq_str ((rows df ! j) NAME_COLUMN) FEATURE_COLUMN"
  shows "\<exists>out. append_entities df es = Inr out \<and>
           rows out = (if es = [] then rows df
                       else take (Suc i) (reindexed df) @ concat (map entity_rows (rev es))
                            @ drop (Suc i) (reindexed df))"
  using assms
proof (induction es arbitrary: df)
  case Nil
  then show ?case by simp
next
  case (Cons e es)
  let ?R = "reindexed df"
  let ?df1 = "\<lparr>columns = first_occurrences
                    (columns df @ columns (additional_row e) @ columns (coordinates_row e)
                     @ columns df),
                rows = take (Suc i) ?R @ entity_rows e @ drop (Suc i) ?R\<rparr>"
  have step: "append_select_one_from_file_row df e = Inr ?df1"
    using append_select_one_Inr [OF Cons.prems, of e] .
  have len: "length (take (Suc i) ?R) = Suc i" using Cons.prems(2) by simp
  have nth: "\<And>j. j \<le> i \<Longrightarrow> (rows ?df1 ! j) NAME_COLUMN = (rows df ! j) NAME_COLUMN"
    using Cons.prems(1,2) by (simp add: nth_append reindexed_inside)
  have p1: "NAME_COLUMN \<in> set (columns ?df1)" using Cons.prems(1) by simp
  have p2: "i < length (rows ?df1)" using Cons.prems(2) by simp
  have p3: "eq_str ((rows ?df1 ! i) NAME_COLUMN) FEATURE_COLUMN"
    using nth [of i] Cons.prems(3) by simp
  have p4: "\<forall>j<i. \<not> eq_str ((rows ?df1 ! j) NAME_COLUMN) FEATURE_COLUMN"
    using nth Cons.prems(4) by simp
  from Cons.IH [OF p1 p2 p3 p4] obtain out where
    out: "append_entities ?df1 es = Inr out"
      "rows out = (if es = [] then rows ?df1
                   else take (Suc i) (reindexed ?df1) @ concat (map entity_rows (rev es))
                        @ drop (Suc i) (reindexed ?df1))"
    by blast
  have re: "reindexed ?df1 = take (Suc i) ?R @ entity_rows e @ drop (Suc i) ?R"
    by (rule inserted_reindexed)
  have "rows out = take (Suc i) ?R @ concat (map entity_rows (rev (e # es))) @ drop (Suc i) ?R"
    using out(2) len by (simp add: re)
  then show ?case using step out(1) by simp
qed

section \<open>Insertion of entity rows\<close>

text \<open>
  C4 (as amended). On a survey frame with a \<^verbatim>\<open>name\<close> column whose first row named
  \<^verbatim>\<open>feature\<close> is at position \<open>i\<close>, the loop over a non-empty list of entity names
  returns a frame, and its rows are: the rows up to the anchor, then the row pairs of the
  entities in reverse list order (the pair of the last entity right after the anchor, the
  pair of the first entity last), then the rows that followed the anchor.
\<close>

theorem entity_rows_reverse_order:
  assumes "NAME_COLUMN \<in> set (columns df)"
    and "i < length (rows df)"
    and "eq_str ((rows df ! i) NAME_COLUMN) FEATURE_COLUMN"
    and "\<forall>j<i. \<not> eq_str ((rows df ! j) NAME_COLUMN) FEATURE_COLUMN"
    and "es \<noteq> []"
  shows "\<exists>out. append_entities df es = Inr out \<and>
           rows out = take (Suc i) (reindexed df) @ concat (map entity_rows (rev es))
                      @ drop (Suc i) (reindexed df)"
  using append_entities_rows [OF assms(1-4), of es] assms(5) by simp

theorem entity_rows_reverse_order_witness:
  "\<exists>out. append_entities example_anchor [''roads'', ''waterpoints''] = Inr out \<and>
     rows out = take (Suc 1) (reindexed example_anchor)
                @ concat (map entity_rows (rev [''roads'', ''waterpoints'']))
                @ drop (Suc 1) (reindexed example_anchor)"
proof -
  have 1: "NAME_COLUMN \<in> set (columns example_anchor)"
    by (simp add: NAME_COLUMN_def example_anchor_def)
  have 2: "1 < length (rows example_anchor)"
    by (simp add: example_anchor_def)
  have 3: "eq_str ((rows example_anchor ! 1) NAME_COLUMN) FEATURE_COLUMN"
    by (simp add: example_anchor_def eq_str_def NAME_COLUMN_def FEATURE_COLUMN_def)
  have 4: "\<forall>j<1. \<not> eq_str ((rows example_anchor ! j) NAME_COLUMN) FEATURE_COLUMN"
    by (simp add: example_anchor_def eq_str_def NAME_COLUMN_def FEATURE_COLUMN_def)
  have 5: "[''roads'', ''waterpoints''] \<noteq> []" by simp
  show ?thesis by (rule entity_rows_reverse_order [OF 1 2 3 4 5])
qed

text \<open>
  C4 as stated fails: with the entities \<^verbatim>\<open>roads\<close> and \<^verbatim>\<open>waterpoints\<close>, in this order,
  the rows of \<^verbatim>\<open>waterpoints\<close> come before the rows of \<^verbatim>\<open>roads\<close>.
\<close>

theorem entity_rows_list_order_counterexample:
  "(case append_entities example_anchor [''roads'', ''waterpoints''] of
      Inl e \<Rightarrow> []
    | Inr out \<Rightarrow> names_of out) =
   [Some (Str ''start''), Some (Str ''feature''), Some (Str ''waterpoints''),
    Some (Str ''additional_geometry''), Some (Str ''roads''),
    Some (Str ''additional_geometry''), Some (Str ''comment'')]"
  by (simp add: eval_defs)

lemma label_cells_eq:
  "label_cells r =
     [r ''label::english(en)'', r ''label::french(fr)'', r ''label::spanish(es)'',
      r ''label::swahili(sw)'', r ''label::nepali(ne)'']"
  by (simp add: label_cells_def DEFAULT_LANGUAGES_def)

text \<open>
  C6 (as amended). The question row and the calculation row that an insertion adds, and the
  begin-group row of \<^verbatim>\<open>create_survey_group\<close>, carry a label in four of the five default
  languages (english, french, spanish, swahili) and none in nepali; the begin-group row
  carries the relevant expression, and the end-group row has its type and nothing else.
\<close>

theorem generated_rows_labels:
  assumes "append_select_one_from_file_row df e = Inr out"
  shows "(\<exists>k. Suc k < length (rows out)
            \<and> (rows out ! k) ''type'' = Some (Str (''select_one_from_file '' @ e @ ''.csv''))
            \<and> (rows out ! k) ''name'' = Some (Str e)
            \<and> (rows out ! k) ''appearance'' = Some (Str ''map'')
            \<and> label_cells (rows out ! k)
                = [Some (Str e), Some (Str e), Some (Str e), Some (Str e), None]
            \<and> (rows out ! Suc k) ''type'' = Some (Str ''calculate'')
            \<and> (rows out ! Suc k) ''name'' = Some (Str ''additional_geometry'')
            \<and> label_cells (rows out ! Suc k)
                = [Some (Str ''additional_geometry''), Some (Str ''additional_geometry''),
                   Some (Str ''additional_geometry''), Some (Str ''additional_geometry''), None])
         \<and> (\<exists>b. rows (fst (create_survey_group n)) = [b]
               \<and> b ''type'' = Some (Str ''begin group'')
               \<and> b ''name'' = Some (Str n)
               \<and> label_cells b = [Some (Str n), Some (Str n), Some (Str n), Some (Str n), None]
               \<and> b ''relevant'' =
                   Some (Str (''(${new_feature} != '' @ [CHR 0x27, CHR 0x27]
                              @ '') or (${building_exists} = '' @ [CHR 0x27] @ ''yes''
                              @ [CHR 0x27] @ '')'')))
         \<and> rows (snd (create_survey_group n)) = [[''type'' \<mapsto> Str ''end group'']]"
proof -
  from append_select_one_InrD [OF assms] obtain i where
    i: "i < length (rows df)"
    and out: "rows out = take (Suc i) (reindexed df) @ entity_rows e
                         @ drop (Suc i) (reindexed df)"
    by auto
  have len: "length (take (Suc i) (reindexed df)) = Suc i" using i by simp
  have q: "rows out ! Suc i = map_of
     [(''type'', Str (''select_one_from_file '' @ e @ ''.csv'')),
      (''name'', Str e),
      (''label::english(en)'', Str e),
      (''appearance'', Str ''map''),
      (''label::swahili(sw)'', Str e),
      (''label::french(fr)'', Str e),
      (''label::spanish(es)'', Str e)]"
    using len by (simp add: out nth_append entity_rows_def additional_row_def frame1_def)
  have c: "rows out ! Suc (Suc i) = map_of
     [(''type'', Str ''calculate''),
      (''name'', Str ''additional_geometry''),
      (''calculation'',
         Str (''instance('' @ [CHR 0x27] @ e @ [CHR 0x27]
              @ '')/root/item[name=${'' @ e @ ''}]/geometry'')),
      (''label::english(en)'', Str ''additional_geometry''),
      (''label::swahili(sw)'', Str ''additional_geometry''),
      (''label::french(fr)'', Str ''additional_geometry''),
      (''label::spanish(es)'', Str ''additional_geometry'')]"
    using len
    by (simp add: out nth_append entity_rows_def additional_row_def coordinates_row_def
        frame1_def)
  have l: "Suc (Suc i) < length (rows out)"
    using len i by (simp add: out entity_rows_def additional_row_def coordinates_row_def
        frame1_def)
  have first: "\<exists>k. Suc k < length (rows out)
            \<and> (rows out ! k) ''type'' = Some (Str (''select_one_from_file '' @ e @ ''.csv''))
            \<and> (rows out ! k) ''name'' = Some (Str e)
            \<and> (rows out ! k) ''appearance'' = Some (Str ''map'')
            \<and> label_cells (rows out ! k)
                = [Some (Str e), Some (Str e), Some (Str e), Some (Str e), None]
            \<and> (rows out ! Suc k) ''type'' = Some (Str ''calculate'')
            \<and> (rows out ! Suc k) ''name'' = Some (Str ''additional_geometry'')
            \<and> label_cells (rows out ! Suc k)
                = [Some (Str ''additional_geometry''), Some (Str ''additional_geometry''),
                   Some (Str ''additional_geometry''), Some (Str ''additional_geometry''), None]"
    by (rule exI [of _ "Suc i"]) (simp add: l q c label_cells_eq)
  have second: "\<exists>b. rows (fst (create_survey_group n)) = [b]
               \<and> b ''type'' = Some (Str ''begin group'')
               \<and> b ''name'' = Some (Str n)
               \<and> label_cells b = [Some (Str n), Some (Str n), Some (Str n), Some (Str n), None]
               \<and> b ''relevant'' =
                   Some (Str (''(${new_feature} != '' @ [CHR 0x27, CHR 0x27]
                              @ '') or (${building_exists} = '' @ [CHR 0x27] @ ''yes''
                              @ [CHR 0x27] @ '')''))"
    by (simp add: create_survey_group_def frame1_def label_cells_eq)
  have third: "rows (snd (create_survey_group n)) = [[''type'' \<mapsto> Str ''end group'']]"
    by (simp add: create_survey_group_def frame1_def)
  from first second third show ?thesis by blast
qed

theorem generated_rows_labels_witness:
  "\<exists>out. append_select_one_from_file_row example_anchor ''road'' = Inr out
     \<and> (\<exists>k. Suc k < length (rows out)
            \<and> (rows out ! k) ''name'' = Some (Str ''road'')
            \<and> label_cells (rows out ! k)
                = [Some (Str ''road''), Some (Str ''road''), Some (Str ''road''),
                   Some (Str ''road''), None])"
proof -
  have "\<exists>out. append_select_one_from_file_row example_anchor ''road'' = Inr out"
    by (simp add: eval_defs)
  then obtain out where out: "append_select_one_from_file_row example_anchor ''road'' = Inr out"
    by blast
  from generated_rows_labels [OF out, of "''survey_questions''"] out show ?thesis by blast
qed

text \<open>
  C6 as stated fails: nepali is a default language, and none of the three generated rows
  has a label in it.
\<close>

theorem generated_rows_nepali_counterexample:
  "map_of DEFAULT_LANGUAGES ''nepali'' = Some ''ne''
   \<and> label_cells (hd (rows (fst (create_survey_group ''survey_questions''))))
       = [Some (Str ''survey_questions''), Some (Str ''survey_questions''),
          Some (Str ''survey_questions''), Some (Str ''survey_questions''), None]
   \<and> label_cells (hd (rows (additional_row ''road'')))
       = [Some (Str ''road''), Some (Str ''road''), Some (Str ''road''), Some (Str ''road''),
          None]
   \<and> label_cells (hd (rows (coordinates_row ''road'')))
       = [Some (Str ''additional_geometry''), Some (Str ''additional_geometry''),
          Some (Str ''additional_geometry''), Some (Str ''additional_geometry''), None]"
  by (simp add: label_cells_eq create_survey_group_def additional_row_def coordinates_row_def
      frame1_def DEFAULT_LANGUAGES_def)

section \<open>The assembled survey sheet with additional entities\<close>

text \<open>
  C1. The call of the repository's own test, with the additional entities \<^verbatim>\<open>roads\<close> and
  \<^verbatim>\<open>waterpoints\<close>: the survey sheet returned has two rows named
  \<^verbatim>\<open>additional_geometry\<close>, so its names are not unique.
\<close>

theorem survey_names_not_unique:
  "filter (\<lambda>v. v = Some (Str ''additional_geometry''))
     (survey_names (fst (append_mandatory_fields example_globals ''2024-01-01 00:00:00''
        ''uuid'' example_form ''buildings'' [''roads'', ''waterpoints''] None)))
   = [Some (Str ''additional_geometry''), Some (Str ''additional_geometry'')]"
  by code_simp

text \<open>
  C3. The same call: four rows more than without additional entities, and the question
  rows are named \<^verbatim>\<open>roads\<close> and \<^verbatim>\<open>waterpoints\<close>, as passed; no row is named \<^verbatim>\<open>road\<close>
  or \<^verbatim>\<open>waterpoint\<close>.
\<close>

theorem entity_names_not_singularized:
  "survey_names (fst (append_mandatory_fields example_globals ''2024-01-01 00:00:00'' ''uuid''
       example_form ''buildings'' [''roads'', ''waterpoints''] None)) =
   [Some (Str ''start''), Some (Str ''feature''), Some (Str ''waterpoints''),
    Some (Str ''additional_geometry''), Some (Str ''roads''),
    Some (Str ''additional_geometry''), Some (Str ''form_category''),
    Some (Str ''survey_questions''), Some (Str ''q1''), None, Some (Str ''comment'')]
   \<and> survey_names (fst (append_mandatory_fields example_globals ''2024-01-01 00:00:00''
       ''uuid'' example_form ''buildings'' [] None)) =
   [Some (Str ''start''), Some (Str ''feature''), Some (Str ''form_category''),
    Some (Str ''survey_questions''), Some (Str ''q1''), None, Some (Str ''comment'')]"
  by code_simp

end
